theory Spec2Isabelle
  imports Complex_Main
begin

section \<open>The ledger as the analytics controller reads it\<close>

text \<open>
  The embedding follows \<^verbatim>\<open>controllers/analyticsController.js\<close>. Every section function
  of that file is an SQL query against the tables of \<^verbatim>\<open>config/database.js\<close> followed by
  JavaScript post-processing; both halves are modelled, the query as a function of the tables
  and the post-processing as a function of the rows.

  Numbers: \<^verbatim>\<open>DECIMAL(10, 2)\<close> columns, SQL aggregates and JavaScript numbers are all read
  as \<^typ>\<open>real\<close>, the values the driver hands over being taken as numbers. Counts are
  \<^typ>\<open>nat\<close>, the results of \<^verbatim>\<open>Math.round\<close> are \<^typ>\<open>int\<close>. Where JavaScript
  would produce \<^verbatim>\<open>Infinity\<close> or \<^verbatim>\<open>NaN\<close> (a division by zero) the model has an explicit
  branch, since \<open>x / 0 = 0\<close> in HOL.
\<close>

datatype kind = Income | Expense

text \<open>A \<^verbatim>\<open>DATE\<close> value: year, month (1 to 12), day of the month.\<close>

type_synonym sql_date = "nat \<times> nat \<times> nat"

text \<open>\<^verbatim>\<open>d1 >= d2\<close> on dates.\<close>

fun date_ge :: "sql_date \<Rightarrow> sql_date \<Rightarrow> bool" where
  "date_ge (y1, m1, d1) (y2, m2, d2) =
     (y2 < y1 \<or> (y2 = y1 \<and> (m2 < m1 \<or> (m2 = m1 \<and> d2 \<le> d1))))"

text \<open>
  \<^verbatim>\<open>TO_CHAR(date, 'YYYY-MM')\<close>, read as the number \<open>YYYYMM\<close>: for four-digit years the
  order of these numbers is the order of the strings, and two dates have the same string
  exactly when they have the same number.
\<close>

fun to_char_yyyy_mm :: "sql_date \<Rightarrow> nat" where
  "to_char_yyyy_mm (y, m, d) = y * 100 + m"

text \<open>\<^verbatim>\<open>EXTRACT(MONTH FROM date)\<close>.\<close>

fun extract_month :: "sql_date \<Rightarrow> nat" where
  "extract_month (y, m, d) = m"

text \<open>A row of table \<^verbatim>\<open>transactions\<close> and a row of table \<^verbatim>\<open>budgets\<close>.\<close>

record transaction =
  t_id :: nat
  t_user_id :: string
  t_amount :: real
  t_type :: kind
  t_category :: string
  t_description :: "string option"
  t_date :: sql_date

record budget =
  b_user_id :: string
  b_category :: string
  b_amount :: real
  b_month_year :: string

text \<open>
  The intervals the queries subtract from \<^verbatim>\<open>CURRENT_DATE\<close>, and the six queries of the
  controller.
\<close>

datatype interval = Days30 | Months3 | Months6 | Months12 | Year1

datatype query = QWeeklyPatterns | QMonthlyTrends | QHistorical | QHealthMetrics
  | QAnomalies | QCashFlow

text \<open>
  The Ledger Store at the moment of a request: the two tables, the database's calendar
  (\<^verbatim>\<open>CURRENT_DATE\<close>, the value of \<^verbatim>\<open>CURRENT_DATE - INTERVAL '...'\<close> for each interval, and
  \<^verbatim>\<open>EXTRACT(DOW FROM date)\<close>, Sunday being 0), and which queries the store fails to answer.
\<close>

record store =
  transactions :: "transaction list"
  budgets :: "budget list"
  current_date :: sql_date
  ago :: "interval \<Rightarrow> sql_date"
  extract_dow :: "sql_date \<Rightarrow> nat"
  fails :: "query \<Rightarrow> bool"

datatype js_error = DataAccessError | TypeError

text \<open>Awaiting a query: the rows, or the rejection of the promise.\<close>

definition sql_exec :: "store \<Rightarrow> query \<Rightarrow> 'a \<Rightarrow> js_error + 'a" where
  "sql_exec st q rows = (if fails st q then Inl DataAccessError else Inr rows)"

subsection \<open>SQL aggregates\<close>

text \<open>\<^verbatim>\<open>SUM\<close>, \<^verbatim>\<open>AVG\<close> and \<^verbatim>\<open>STDDEV\<close> are \<^verbatim>\<open>NULL\<close> over no rows; \<^verbatim>\<open>STDDEV\<close> is the
  sample standard deviation and is \<^verbatim>\<open>NULL\<close> over a single row as well.\<close>

definition sql_sum :: "real list \<Rightarrow> real option" where
  "sql_sum xs = (if xs = [] then None else Some (sum_list xs))"

definition sql_avg :: "real list \<Rightarrow> real option" where
  "sql_avg xs = (if xs = [] then None else Some (sum_list xs / real (length xs)))"

definition sql_stddev :: "real list \<Rightarrow> real option" where
  "sql_stddev xs =
     (if length xs < 2 then None
      else let mean = sum_list xs / real (length xs)
           in Some (sqrt (sum_list (map (\<lambda>x. (x - mean)\<^sup>2) xs) / real (length xs - 1))))"

text \<open>\<^verbatim>\<open>NULLIF(x, 0)\<close> and \<^verbatim>\<open>COALESCE(x, 0)\<close>.\<close>

definition nullif0 :: "real option \<Rightarrow> real option" where
  "nullif0 x = (case x of None \<Rightarrow> None | Some v \<Rightarrow> if v = 0 then None else Some v)"

definition coalesce0 :: "real option \<Rightarrow> real" where
  "coalesce0 x = (case x of None \<Rightarrow> 0 | Some v \<Rightarrow> v)"

subsection \<open>JavaScript built-ins\<close>

text \<open>\<^verbatim>\<open>Math.round\<close>: the nearest integer, a half rounding up.\<close>

definition Math_round :: "real \<Rightarrow> int" where
  "Math_round x = \<lfloor>x + 1 / 2\<rfloor>"

text \<open>\<^verbatim>\<open>Math.round(x * 100) / 100\<close>.\<close>

definition round2 :: "real \<Rightarrow> real" where
  "round2 x = real_of_int (Math_round (x * 100)) / 100"

text \<open>
  \<^verbatim>\<open>Number.prototype.toFixed\<close> for magnitudes below \<open>10\<^sup>2\<^sup>1\<close> (every percentage and average
  of \<^verbatim>\<open>DECIMAL(10, 2)\<close> amounts is): the sign, then the integer nearest to \<open>|x| * 10^d\<close>, the
  larger one of two equally near, written with \<open>d\<close> digits after the point. No sign is written
  for a number that is not negative.
\<close>

fun decimal :: "nat \<Rightarrow> string" where
  "decimal n =
     (if n < 10 then [char_of (48 + n)] else decimal (n div 10) @ [char_of (48 + n mod 10)])"

definition toFixed :: "nat \<Rightarrow> real \<Rightarrow> string" where
  "toFixed d x =
     (let n = nat \<lfloor>\<bar>x\<bar> * 10 ^ d + 1 / 2\<rfloor>;
          frac = decimal (n mod 10 ^ d)
      in (if x < 0 then ''-'' else []) @ decimal (n div 10 ^ d)
         @ (if d = 0 then [] else ''.'' @ replicate (d - length frac) (CHR ''0'') @ frac))"

text \<open>
  The property names every object literal inherits from \<^verbatim>\<open>Object.prototype\<close>. Reading one of
  them from \<^verbatim>\<open>{}\<close> gives a function (or, for \<^verbatim>\<open>__proto__\<close>, the prototype), never
  \<^verbatim>\<open>undefined\<close>.
\<close>

definition object_prototype_keys :: "string list" where
  "object_prototype_keys =
     [''constructor'', ''__defineGetter__'', ''__defineSetter__'', ''hasOwnProperty'',
      ''__lookupGetter__'', ''__lookupSetter__'', ''isPrototypeOf'', ''propertyIsEnumerable'',
      ''toString'', ''valueOf'', ''__proto__'', ''toLocaleString'']"

section \<open>Health Scorer\<close>

text \<open>The one row of the metrics query of \<^verbatim>\<open>getFinancialHealthScore\<close>.\<close>

record health_row =
  total_income :: "real option"
  total_expenses :: "real option"
  category_diversity :: nat
  savings_percentage :: real
  total_budgets :: nat
  successful_budgets :: nat

text \<open>
  CTE \<^verbatim>\<open>recent_data\<close>: the user's transactions of the trailing three months, of both types.
\<close>

definition recent_data :: "store \<Rightarrow> string \<Rightarrow> transaction list" where
  "recent_data st userId =
     filter (\<lambda>t. t_user_id t = userId \<and> date_ge (t_date t) (ago st Months3)) (transactions st)"

text \<open>
  CTE \<^verbatim>\<open>budget_adherence\<close>. The inner query joins each budget row of the user with the
  user's expenses of the current month in the budget's category, groups by
  \<^verbatim>\<open>(b.category, b.amount)\<close> and marks the group \<^verbatim>\<open>under_budget\<close> when the joined amounts sum
  to at most the budgeted amount.
\<close>

definition budget_join :: "store \<Rightarrow> budget \<Rightarrow> transaction list" where
  "budget_join st b =
     filter (\<lambda>t. b_user_id b = t_user_id t \<and> b_category b = t_category t \<and> t_type t = Expense
                \<and> to_char_yyyy_mm (t_date t) = to_char_yyyy_mm (current_date st))
       (transactions st)"

definition budget_groups :: "store \<Rightarrow> string \<Rightarrow> (string \<times> real) list" where
  "budget_groups st userId =
     remdups (map (\<lambda>b. (b_category b, b_amount b))
                (filter (\<lambda>b. b_user_id b = userId) (budgets st)))"

definition under_budget :: "store \<Rightarrow> string \<Rightarrow> string \<times> real \<Rightarrow> bool" where
  "under_budget st userId g =
     (let bs = filter (\<lambda>b. b_user_id b = userId \<and> (b_category b, b_amount b) = g) (budgets st);
          joined = concat (map (budget_join st) bs)
      in coalesce0 (sql_sum (map t_amount joined)) \<le> snd g)"

definition health_metrics_query :: "store \<Rightarrow> string \<Rightarrow> health_row" where
  "health_metrics_query st userId =
     (let rd = recent_data st userId;
          income = sql_sum (map (\<lambda>t. if t_type t = Income then t_amount t else 0) rd);
          expenses = sql_sum (map (\<lambda>t. if t_type t = Expense then t_amount t else 0) rd)
      in \<lparr> total_income = income,
           total_expenses = expenses,
           category_diversity = length (remdups (map t_category rd)),
           savings_percentage =
             (case income of
                Some i \<Rightarrow> if i > 0 then ((i - coalesce0 expenses) / i) * 100 else 0
              | None \<Rightarrow> 0),
           total_budgets = length (budget_groups st userId),
           successful_budgets =
             length (filter (under_budget st userId) (budget_groups st userId)) \<rparr>)"

datatype status = Positive | Neutral | Negative

record health_factor =
  factor :: string
  impact :: int
  status :: status

record recommendation =
  priority :: string
  message :: string
  action :: string

record health_metrics =
  m_savings_rate :: real
  m_budget_adherence :: real
  m_category_diversity :: nat
  m_monthly_income :: real
  m_monthly_expenses :: real

record health_score =
  overall_score :: int
  grade :: string
  factors :: "health_factor list"
  recommendations :: "recommendation list"
  metrics :: health_metrics

definition getHealthGrade :: "int \<Rightarrow> string" where
  "getHealthGrade score =
     (if score \<ge> 90 then ''A+''
      else if score \<ge> 80 then ''A''
      else if score \<ge> 70 then ''B''
      else if score \<ge> 60 then ''C''
      else if score \<ge> 50 then ''D''
      else ''F'')"

text \<open>\<^verbatim>\<open>String.prototype.toLowerCase\<close> on the ASCII letters, which is all the factor names
  contain.\<close>

definition toLowerCase :: "string \<Rightarrow> string" where
  "toLowerCase s =
     map (\<lambda>c. let n = (of_char c :: nat) in if 65 \<le> n \<and> n \<le> 90 then char_of (n + 32) else c) s"

definition emergency_savings :: recommendation where
  "emergency_savings =
     \<lparr> priority = ''high'',
       message = ''Focus on building emergency savings'',
       action = ''Aim to save at least 10% of your income'' \<rparr>"

definition improve :: "health_factor \<Rightarrow> recommendation" where
  "improve f =
     \<lparr> priority = ''medium'',
       message = ''Improve your '' @ toLowerCase (factor f),
       action = ''This will significantly boost your financial health score'' \<rparr>"

definition generateHealthRecommendations :: "int \<Rightarrow> health_factor list \<Rightarrow> recommendation list" where
  "generateHealthRecommendations score fs =
     (if score < 50 then [emergency_savings] else [])
     @ (case List.find (\<lambda>f. status f = Negative) fs of
          Some negativeFactor \<Rightarrow> [improve negativeFactor]
        | None \<Rightarrow> [])"

text \<open>The savings-rate factor and its points.\<close>

definition savings_factor :: "real \<Rightarrow> health_factor" where
  "savings_factor savingsRate =
     (if savingsRate \<ge> 20 then \<lparr> factor = ''Excellent savings rate'', impact = 30, status = Positive \<rparr>
      else if savingsRate \<ge> 10 then \<lparr> factor = ''Good savings rate'', impact = 20, status = Positive \<rparr>
      else if savingsRate \<ge> 0 then \<lparr> factor = ''Basic savings rate'', impact = 10, status = Neutral \<rparr>
      else \<lparr> factor = ''Negative savings rate'', impact = 0, status = Negative \<rparr>)"

text \<open>
  The body of \<^verbatim>\<open>getFinancialHealthScore\<close> after the query, on the row \<^verbatim>\<open>metrics[0]\<close>.
  \<^verbatim>\<open>parseFloat(x) || 0\<close> is \<open>x\<close> for a number and 0 for \<^verbatim>\<open>null\<close>;
  \<^verbatim>\<open>parseFloat(null) > 0\<close> is false.
\<close>

definition health_of_row :: "health_row \<Rightarrow> health_score" where
  "health_of_row data =
     (let savingsRate = savings_percentage data;
          f1 = savings_factor savingsRate;
          budgetAdherence =
            (if total_budgets data > 0
             then (real (successful_budgets data) / real (total_budgets data)) * 100
             else 0);
          budgetPoints = Math_round ((budgetAdherence / 100) * 25);
          f2 = \<lparr> factor = ''Budget adherence'', impact = budgetPoints,
                 status = (if budgetAdherence \<ge> 75 then Positive
                           else if budgetAdherence \<ge> 50 then Neutral else Negative) \<rparr>;
          diversity = min (category_diversity data) 8;
          diversityPoints = Math_round ((real diversity / 8) * 20);
          f3 = \<lparr> factor = ''Expense categorization'', impact = diversityPoints,
                 status = (if diversity \<ge> 5 then Positive else Neutral) \<rparr>;
          hasIncome = (case total_income data of Some i \<Rightarrow> i > 0 | None \<Rightarrow> False);
          incomePoints = (if hasIncome then 25 else 0);
          f4 = \<lparr> factor = ''Income stability'', impact = incomePoints,
                 status = (if hasIncome then Positive else Negative) \<rparr>;
          healthScore = impact f1 + budgetPoints + diversityPoints + incomePoints;
          fs = [f1, f2, f3, f4]
      in \<lparr> overall_score = min healthScore 100,
           grade = getHealthGrade healthScore,
           factors = fs,
           recommendations = generateHealthRecommendations healthScore fs,
           metrics = \<lparr> m_savings_rate = savingsRate,
                       m_budget_adherence = budgetAdherence,
                       m_category_diversity = diversity,
                       m_monthly_income = coalesce0 (total_income data),
                       m_monthly_expenses = coalesce0 (total_expenses data) \<rparr> \<rparr>)"

text \<open>\<^verbatim>\<open>getFinancialHealthScore\<close>: \<^verbatim>\<open>null\<close> (here \<open>None\<close>) when the query is rejected.\<close>

definition getFinancialHealthScore :: "store \<Rightarrow> string \<Rightarrow> health_score option" where
  "getFinancialHealthScore st userId =
     (case sql_exec st QHealthMetrics (health_metrics_query st userId) of
        Inl e \<Rightarrow> None
      | Inr data \<Rightarrow> Some (health_of_row data))"

section \<open>Pattern Analyzer\<close>

record weekly_row =
  day_of_week :: nat
  avg_daily_spending :: real
  transaction_count :: nat
  common_categories :: "string list"

record monthly_row =
  mt_month :: nat
  mt_category :: string
  total_spending :: real
  frequency :: nat

record insight =
  i_type :: string
  i_message :: string
  i_value :: string

record spending_patterns =
  weekly_patterns :: "weekly_row list"
  monthly_trends :: "monthly_row list"
  insights :: "insight list"

text \<open>\<^verbatim>\<open>period === '1year' ? '1 year' : '6 months'\<close>.\<close>

definition period_interval :: "string \<Rightarrow> interval" where
  "period_interval period = (if period = ''1year'' then Year1 else Months6)"

text \<open>The expenses of the user in the window, the rows both queries of
  \<^verbatim>\<open>getSpendingPatterns\<close> aggregate.\<close>

definition spending_analysis :: "store \<Rightarrow> string \<Rightarrow> string \<Rightarrow> transaction list" where
  "spending_analysis st userId period =
     filter (\<lambda>t. t_user_id t = userId \<and> t_type t = Expense
                \<and> date_ge (t_date t) (ago st (period_interval period)))
       (transactions st)"

text \<open>\<^verbatim>\<open>GROUP BY day_of_week ORDER BY day_of_week\<close>. A group is never empty, so \<^verbatim>\<open>AVG\<close> is
  the quotient.\<close>

definition weekly_patterns_query :: "store \<Rightarrow> string \<Rightarrow> string \<Rightarrow> weekly_row list" where
  "weekly_patterns_query st userId period =
     (let sa = spending_analysis st userId period;
          days = sort (remdups (map (\<lambda>t. extract_dow st (t_date t)) sa))
      in map (\<lambda>d. let g = filter (\<lambda>t. extract_dow st (t_date t) = d) sa
                  in \<lparr> day_of_week = d,
                       avg_daily_spending = sum_list (map t_amount g) / real (length g),
                       transaction_count = length g,
                       common_categories = remdups (map t_category g) \<rparr>) days)"

text \<open>\<^verbatim>\<open>GROUP BY EXTRACT(MONTH FROM date), category ORDER BY month, total_spending DESC\<close>.\<close>

definition monthly_trends_query :: "store \<Rightarrow> string \<Rightarrow> string \<Rightarrow> monthly_row list" where
  "monthly_trends_query st userId period =
     (let sa = spending_analysis st userId period;
          groups = remdups (map (\<lambda>t. (extract_month (t_date t), t_category t)) sa);
          rows = map (\<lambda>(m, c).
                   let g = filter (\<lambda>t. extract_month (t_date t) = m \<and> t_category t = c) sa
                   in \<lparr> mt_month = m, mt_category = c,
                        total_spending = sum_list (map t_amount g),
                        frequency = length g \<rparr>) groups
      in sort_key mt_month (rev (sort_key total_spending rows)))"

definition dayNames :: "string list" where
  "dayNames = [''Sunday'', ''Monday'', ''Tuesday'', ''Wednesday'', ''Thursday'', ''Friday'',
     ''Saturday'']"

text \<open>
  \<^verbatim>\<open>generatePatternInsights\<close>. \<^verbatim>\<open>patterns.reduce(f)\<close> has no initial value: it starts from
  the first row, and on an empty array it throws a \<^verbatim>\<open>TypeError\<close>.
\<close>

definition generatePatternInsights :: "weekly_row list \<Rightarrow> monthly_row list \<Rightarrow> js_error + insight list" where
  "generatePatternInsights patterns trnds =
     (case patterns of
        [] \<Rightarrow> Inl TypeError
      | p # ps \<Rightarrow>
          let highestSpendingDay =
                foldl (\<lambda>mx dy. if avg_daily_spending dy > avg_daily_spending mx then dy else mx) p ps
          in Inr [\<lparr> i_type = ''pattern'',
                    i_message = ''You tend to spend most on ''
                      @ (if day_of_week highestSpendingDay < 7
                         then dayNames ! day_of_week highestSpendingDay else ''undefined''),
                    i_value = ''$'' @ toFixed 2 (avg_daily_spending highestSpendingDay)
                      @ '' average'' \<rparr>])"

text \<open>\<^verbatim>\<open>getSpendingPatterns\<close>: whatever is thrown inside \<^verbatim>\<open>try\<close> is caught and the function
  returns \<^verbatim>\<open>null\<close>.\<close>

definition getSpendingPatterns :: "store \<Rightarrow> string \<Rightarrow> string \<Rightarrow> spending_patterns option" where
  "getSpendingPatterns st userId period =
     (case sql_exec st QWeeklyPatterns (weekly_patterns_query st userId period) of
        Inl e \<Rightarrow> None
      | Inr patterns \<Rightarrow>
          (case sql_exec st QMonthlyTrends (monthly_trends_query st userId period) of
             Inl e \<Rightarrow> None
           | Inr monthlyTrends \<Rightarrow>
               (case generatePatternInsights patterns monthlyTrends of
                  Inl e \<Rightarrow> None
                | Inr ins \<Rightarrow>
                    Some \<lparr> weekly_patterns = patterns, monthly_trends = monthlyTrends,
                           insights = ins \<rparr>)))"

section \<open>Trend Predictor\<close>

record historical_row =
  h_month :: nat
  h_category :: string
  monthly_spending :: real

record prediction =
  predicted_amount :: real
  confidence :: string
  trend :: string

record prediction_recommendation =
  pr_type :: string
  pr_category :: string
  pr_message :: string
  pr_action :: string

record predictive_insights =
  next_month_predictions :: "(string \<times> prediction) list"
  total_predicted_spending :: real
  pr_recommendations :: "prediction_recommendation list"

text \<open>
  The query of \<^verbatim>\<open>getPredictiveInsights\<close>: the user's expenses of the trailing twelve months,
  \<^verbatim>\<open>GROUP BY TO_CHAR(date, 'YYYY-MM'), category ORDER BY month DESC\<close>, the latest month
  first.
\<close>

definition historical_query :: "store \<Rightarrow> string \<Rightarrow> historical_row list" where
  "historical_query st userId =
     (let sa = filter (\<lambda>t. t_user_id t = userId \<and> t_type t = Expense
                          \<and> date_ge (t_date t) (ago st Months12)) (transactions st);
          groups = remdups (map (\<lambda>t. (to_char_yyyy_mm (t_date t), t_category t)) sa);
          rows = map (\<lambda>(m, c).
                   \<lparr> h_month = m, h_category = c,
                     monthly_spending = sum_list (map t_amount
                       (filter (\<lambda>t. to_char_yyyy_mm (t_date t) = m \<and> t_category t = c) sa)) \<rparr>)
                   groups
      in rev (sort_key h_month rows))"

text \<open>
  \<^verbatim>\<open>categoryTrends\<close> is an object used as a dictionary; its entries are kept in insertion
  order, the order \<^verbatim>\<open>Object.entries\<close> gives for keys that are not array indices.
  \<^verbatim>\<open>push_amount\<close> is \<^verbatim>\<open>categoryTrends[c].push(a)\<close>, after \<^verbatim>\<open>categoryTrends[c] = []\<close> for
  a new key.
\<close>

fun push_amount :: "(string \<times> real list) list \<Rightarrow> string \<Rightarrow> real \<Rightarrow> (string \<times> real list) list" where
  "push_amount [] c a = [(c, [a])]"
| "push_amount ((k, v) # kvs) c a =
     (if k = c then (k, v @ [a]) # kvs else (k, v) # push_amount kvs c a)"

text \<open>
  The \<^verbatim>\<open>forEach\<close> over the rows. For a category named like an inherited property,
  \<^verbatim>\<open>categoryTrends[row.category]\<close> is truthy without being an array and \<^verbatim>\<open>push\<close> throws.
\<close>

fun group_by_category :: "(string \<times> real list) list \<Rightarrow> historical_row list \<Rightarrow> js_error + (string \<times> real list) list" where
  "group_by_category acc [] = Inr acc"
| "group_by_category acc (row # rows) =
     (if h_category row \<in> set object_prototype_keys then Inl TypeError
      else group_by_category (push_amount acc (h_category row) (monthly_spending row)) rows)"

text \<open>\<^verbatim>\<open>calculateTrend\<close>: the least-squares slope of the values against their positions
  \<open>1, \<dots>, n\<close> in the array. For \<open>n \<ge> 2\<close> the denominator is \<open>n\<^sup>2 (n\<^sup>2 - 1) / 12\<close>, not zero.\<close>

definition calculateTrend :: "real list \<Rightarrow> real" where
  "calculateTrend values =
     (if length values < 2 then 0
      else let n = real (length values);
               sumX = (n * (n + 1)) / 2;
               sumY = sum_list values;
               sumXY = sum_list (map (\<lambda>(x, y). (real x + 1) * y) (enumerate 0 values));
               sumX2 = (n * (n + 1) * (2 * n + 1)) / 6
           in (n * sumXY - sumX * sumY) / (n * sumX2 - sumX * sumX))"

text \<open>\<^verbatim>\<open>calculateConfidence\<close>. With a mean of zero the coefficient of variation is
  \<^verbatim>\<open>Infinity\<close> or \<^verbatim>\<open>NaN\<close>; both comparisons are false.\<close>

definition calculateConfidence :: "real list \<Rightarrow> string" where
  "calculateConfidence values =
     (if length values < 3 then ''low''
      else let mean = sum_list values / real (length values);
               variance = sum_list (map (\<lambda>val. (val - mean)\<^sup>2) values) / real (length values)
           in if mean = 0 then ''low''
              else let coefficientOfVariation = sqrt variance / mean
                   in if coefficientOfVariation < 3 / 10 then ''high''
                      else if coefficientOfVariation < 6 / 10 then ''medium''
                      else ''low'')"

definition predict :: "real list \<Rightarrow> prediction" where
  "predict amounts =
     (let trnd = calculateTrend amounts;
          avgSpending = sum_list amounts / real (length amounts);
          nextMonthPrediction = max 0 (avgSpending + trnd)
      in \<lparr> predicted_amount = round2 nextMonthPrediction,
           confidence = calculateConfidence amounts,
           trend = (if trnd > 0 then ''increasing''
                    else if trnd < 0 then ''decreasing'' else ''stable'') \<rparr>)"

definition generatePredictionRecommendations :: "(string \<times> prediction) list \<Rightarrow> prediction_recommendation list" where
  "generatePredictionRecommendations predictions =
     map (\<lambda>(category, p).
            \<lparr> pr_type = ''warning'', pr_category = category,
              pr_message = category @ '' spending is predicted to increase'',
              pr_action = ''Consider setting a budget limit for '' @ category \<rparr>)
       (filter (\<lambda>(category, p). trend p = ''increasing'' \<and> predicted_amount p > 200) predictions)"

definition getPredictiveInsights :: "store \<Rightarrow> string \<Rightarrow> predictive_insights option" where
  "getPredictiveInsights st userId =
     (case sql_exec st QHistorical (historical_query st userId) of
        Inl e \<Rightarrow> None
      | Inr historicalData \<Rightarrow>
          (case group_by_category [] historicalData of
             Inl e \<Rightarrow> None
           | Inr categoryTrends \<Rightarrow>
               let predictions =
                     map (\<lambda>(category, amounts). (category, predict amounts))
                       (filter (\<lambda>(category, amounts). length amounts \<ge> 3) categoryTrends)
               in Some \<lparr> next_month_predictions = predictions,
                         total_predicted_spending =
                           sum_list (map (\<lambda>(category, p). predicted_amount p) predictions),
                         pr_recommendations = generatePredictionRecommendations predictions \<rparr>))"

section \<open>Anomaly Detector\<close>

record category_stat =
  cs_category :: string
  cs_avg_amount :: real
  cs_std_amount :: "real option"
  cs_transaction_count :: nat

record anomaly_row =
  a_id :: nat
  a_date :: sql_date
  a_category :: string
  a_amount :: real
  a_description :: "string option"
  avg_amount :: real
  z_score :: real

record anomaly = anomaly_row +
  severity :: string
  deviation_percentage :: string

record anomaly_summary =
  total_anomalies :: nat
  high_severity_count :: nat

record anomaly_detection =
  unusual_transactions :: "anomaly list"
  summary :: anomaly_summary

text \<open>The amounts of the user's expenses of the trailing six months in one category: the
  sample a category's baseline is computed from.\<close>

definition baseline_amounts :: "store \<Rightarrow> string \<Rightarrow> string \<Rightarrow> real list" where
  "baseline_amounts st userId c =
     map t_amount
       (filter (\<lambda>t. t_category t = c)
          (filter (\<lambda>t. t_user_id t = userId \<and> t_type t = Expense
                      \<and> date_ge (t_date t) (ago st Months6)) (transactions st)))"

text \<open>CTE \<^verbatim>\<open>category_stats\<close>: \<^verbatim>\<open>GROUP BY category HAVING COUNT(*) >= 5\<close>.\<close>

definition category_stats :: "store \<Rightarrow> string \<Rightarrow> category_stat list" where
  "category_stats st userId =
     (let cats = remdups (map t_category
                   (filter (\<lambda>t. t_user_id t = userId \<and> t_type t = Expense
                               \<and> date_ge (t_date t) (ago st Months6)) (transactions st)));
          rows = map (\<lambda>c. let g = baseline_amounts st userId c
                         in \<lparr> cs_category = c,
                              cs_avg_amount = sum_list g / real (length g),
                              cs_std_amount = sql_stddev g,
                              cs_transaction_count = length g \<rparr>) cats
      in filter (\<lambda>cs. cs_transaction_count cs \<ge> 5) rows)"

text \<open>CTE \<^verbatim>\<open>recent_transactions\<close>: the user's expenses of the trailing thirty days, each
  joined with the statistics of its category.\<close>

definition recent_transactions :: "store \<Rightarrow> string \<Rightarrow> (transaction \<times> category_stat) list" where
  "recent_transactions st userId =
     concat (map (\<lambda>t. map (\<lambda>cs. (t, cs))
                         (filter (\<lambda>cs. t_category t = cs_category cs) (category_stats st userId)))
               (filter (\<lambda>t. t_user_id t = userId \<and> t_type t = Expense
                           \<and> date_ge (t_date t) (ago st Days30)) (transactions st)))"

text \<open>\<^verbatim>\<open>ABS(amount - avg_amount) / NULLIF(std_amount, 0)\<close>: \<^verbatim>\<open>NULL\<close>, and no division, when
  the standard deviation is zero.\<close>

definition z_score_sql :: "real \<Rightarrow> real \<Rightarrow> real option \<Rightarrow> real option" where
  "z_score_sql amount avg std =
     (case nullif0 std of None \<Rightarrow> None | Some s \<Rightarrow> Some (\<bar>amount - avg\<bar> / s))"

text \<open>The rows that pass \<^verbatim>\<open>WHERE ... > 2\<close>; a \<^verbatim>\<open>NULL\<close> comparison does not pass.\<close>

definition flagged :: "store \<Rightarrow> string \<Rightarrow> anomaly_row list" where
  "flagged st userId =
     List.map_filter
       (\<lambda>(t, cs).
          case z_score_sql (t_amount t) (cs_avg_amount cs) (cs_std_amount cs) of
            None \<Rightarrow> None
          | Some z \<Rightarrow>
              if z > 2
              then Some \<lparr> a_id = t_id t, a_date = t_date t, a_category = t_category t,
                          a_amount = t_amount t, a_description = t_description t,
                          avg_amount = cs_avg_amount cs, z_score = z \<rparr>
              else None)
       (recent_transactions st userId)"

text \<open>\<^verbatim>\<open>ORDER BY z_score DESC LIMIT 10\<close>.\<close>

definition anomaly_query :: "store \<Rightarrow> string \<Rightarrow> anomaly_row list" where
  "anomaly_query st userId = take 10 (rev (sort_key z_score (flagged st userId)))"

text \<open>
  The object built for each row by \<^verbatim>\<open>anomalies.map\<close>. A zero \<^verbatim>\<open>avg_amount\<close> makes the
  percentage \<^verbatim>\<open>Infinity\<close>, \<^verbatim>\<open>-Infinity\<close> or \<^verbatim>\<open>NaN\<close>, which \<^verbatim>\<open>toFixed\<close> prints by name.
\<close>

definition annotate :: "anomaly_row \<Rightarrow> anomaly" where
  "annotate a =
     \<lparr> a_id = a_id a, a_date = a_date a, a_category = a_category a, a_amount = a_amount a,
       a_description = a_description a, avg_amount = avg_amount a, z_score = z_score a,
       severity = (if z_score a > 3 then ''high''
                   else if z_score a > 5 / 2 then ''medium'' else ''low''),
       deviation_percentage =
         (if avg_amount a = 0
          then (if a_amount a - avg_amount a > 0 then ''Infinity''
                else if a_amount a - avg_amount a < 0 then ''-Infinity'' else ''NaN'')
          else toFixed 1 ((a_amount a - avg_amount a) / avg_amount a * 100)) \<rparr>"

definition getAnomalyDetection :: "store \<Rightarrow> string \<Rightarrow> anomaly_detection option" where
  "getAnomalyDetection st userId =
     (case sql_exec st QAnomalies (anomaly_query st userId) of
        Inl e \<Rightarrow> None
      | Inr anomalies \<Rightarrow>
          Some \<lparr> unusual_transactions = map annotate anomalies,
                 summary = \<lparr> total_anomalies = length anomalies,
                             high_severity_count =
                               length (filter (\<lambda>a. z_score a > 3) anomalies) \<rparr> \<rparr>)"

section \<open>Cash-Flow Projector\<close>

record cash_row =
  c_month :: nat
  monthly_income :: real
  monthly_expenses :: real

record projection_point =
  month :: string
  projected_income :: real
  projected_expenses :: real
  net_flow :: real
  running_balance :: real

record cash_trends =
  income_trend :: real
  expense_trend :: real

record cash_flow =
  projection :: "projection_point list"
  cf_confidence :: string
  cf_message :: "string option"
  trends :: "cash_trends option"

text \<open>
  What the JavaScript runtime supplies during one request: the successive results of
  \<^verbatim>\<open>Math.random()\<close>, the \<^verbatim>\<open>YYYY-MM\<close> label of the date \<open>i\<close> months from now, and the
  timestamp of the report.
\<close>

record runtime =
  random :: "nat \<Rightarrow> real"
  month_ahead :: "nat \<Rightarrow> string"
  now_iso :: string

text \<open>\<^verbatim>\<open>GROUP BY TO_CHAR(date, 'YYYY-MM') ORDER BY month\<close> over the user's transactions of the
  trailing six months, of both types.\<close>

definition cash_flow_query :: "store \<Rightarrow> string \<Rightarrow> cash_row list" where
  "cash_flow_query st userId =
     (let rd = filter (\<lambda>t. t_user_id t = userId \<and> date_ge (t_date t) (ago st Months6))
                 (transactions st);
          months = sort (remdups (map (\<lambda>t. to_char_yyyy_mm (t_date t)) rd))
      in map (\<lambda>m. let g = filter (\<lambda>t. to_char_yyyy_mm (t_date t) = m) rd
                  in \<lparr> c_month = m,
                       monthly_income =
                         sum_list (map (\<lambda>t. if t_type t = Income then t_amount t else 0) g),
                       monthly_expenses =
                         sum_list (map (\<lambda>t. if t_type t = Expense then t_amount t else 0) g) \<rparr>)
           months)"

text \<open>One turn of the loop \<^verbatim>\<open>for (let i = 1; i <= 3; i++)\<close>; the state is the running
  balance and the projection so far. Turn \<open>i\<close> makes the calls \<open>2 i - 2\<close> and \<open>2 i - 1\<close> of
  \<^verbatim>\<open>Math.random()\<close>.\<close>

definition projection_step :: "runtime \<Rightarrow> real \<Rightarrow> real \<Rightarrow> real \<times> projection_point list \<Rightarrow> nat \<Rightarrow> real \<times> projection_point list" where
  "projection_step rt avgIncome avgExpenses s i =
     (let projectedIncome = avgIncome * (1 + (random rt (2 * i - 2) - 1 / 2) * (1 / 10));
          projectedExpenses = avgExpenses * (1 + (random rt (2 * i - 1) - 1 / 2) * (1 / 10));
          runningBalance = fst s + (projectedIncome - projectedExpenses)
      in (runningBalance,
          snd s @ [\<lparr> month = month_ahead rt i,
                     projected_income = round2 projectedIncome,
                     projected_expenses = round2 projectedExpenses,
                     net_flow = round2 (projectedIncome - projectedExpenses),
                     running_balance = round2 runningBalance \<rparr>]))"

definition project_cash_flow :: "runtime \<Rightarrow> cash_row list \<Rightarrow> cash_flow" where
  "project_cash_flow rt historicalData =
     (if length historicalData = 0
      then \<lparr> projection = [], cf_confidence = ''low'',
             cf_message = Some ''Insufficient data for projection'', trends = None \<rparr>
      else let avgIncome = sum_list (map monthly_income historicalData)
                             / real (length historicalData);
               avgExpenses = sum_list (map monthly_expenses historicalData)
                               / real (length historicalData)
           in \<lparr> projection = snd (foldl (projection_step rt avgIncome avgExpenses) (0, []) [1, 2, 3]),
                cf_confidence = (if length historicalData \<ge> 4 then ''high'' else ''medium''),
                cf_message = None,
                trends = Some \<lparr> income_trend = calculateTrend (map monthly_income historicalData),
                                expense_trend =
                                  calculateTrend (map monthly_expenses historicalData) \<rparr> \<rparr>)"

definition getCashFlowProjection :: "store \<Rightarrow> runtime \<Rightarrow> string \<Rightarrow> cash_flow option" where
  "getCashFlowProjection st rt userId =
     (case sql_exec st QCashFlow (cash_flow_query st userId) of
        Inl e \<Rightarrow> None
      | Inr historicalData \<Rightarrow> Some (project_cash_flow rt historicalData))"

section \<open>Analytics Orchestrator\<close>

record analytics =
  an_spending_patterns :: "spending_patterns option"
  an_predictions :: "predictive_insights option"
  an_health_score :: "health_score option"
  an_anomalies :: "anomaly_detection option"
  an_cash_flow_projection :: "cash_flow option"

record report =
  user_id :: string
  generated_at :: string
  period :: string
  analytics :: analytics

datatype response = Json report | Status500

text \<open>
  \<^verbatim>\<open>getAdvancedAnalytics\<close>. The query parameter \<^verbatim>\<open>period\<close> defaults to \<^verbatim>\<open>'6months'\<close>. Each of
  the five functions catches whatever it throws and resolves to \<^verbatim>\<open>null\<close>, so
  \<^verbatim>\<open>Promise.all\<close> never rejects and the \<^verbatim>\<open>catch\<close> that answers with status 500 is not
  reached.
\<close>

definition getAdvancedAnalytics :: "store \<Rightarrow> runtime \<Rightarrow> string \<Rightarrow> string option \<Rightarrow> response" where
  "getAdvancedAnalytics st rt userId period_param =
     (let period = (case period_param of None \<Rightarrow> ''6months'' | Some p \<Rightarrow> p)
      in Json \<lparr> user_id = userId,
                generated_at = now_iso rt,
                period = period,
                analytics =
                  \<lparr> an_spending_patterns = getSpendingPatterns st userId period,
                    an_predictions = getPredictiveInsights st userId,
                    an_health_score = getFinancialHealthScore st userId,
                    an_anomalies = getAnomalyDetection st userId,
                    an_cash_flow_projection = getCashFlowProjection st rt userId \<rparr> \<rparr>)"

section \<open>Concrete ledgers\<close>

text \<open>
  The ledgers the theorems below are evaluated on. They share one calendar: the request is
  made on 2 November 2026, and \<^verbatim>\<open>EXTRACT(DOW ...)\<close> is the Gregorian weekday.
\<close>

definition gregorian_dow :: "sql_date \<Rightarrow> nat" where
  "gregorian_dow dt =
     (case dt of (y, m, d) \<Rightarrow>
        let y' = (if m < 3 then y - 1 else y)
        in (y' + y' div 4 - y' div 100 + y' div 400
            + [0, 3, 2, 5, 0, 3, 5, 1, 4, 6, 2, 4] ! (m - 1) + d) mod 7)"

definition ago_2026_11_02 :: "interval \<Rightarrow> sql_date" where
  "ago_2026_11_02 i =
     (case i of Days30 \<Rightarrow> (2026, 10, 3) | Months3 \<Rightarrow> (2026, 8, 2) | Months6 \<Rightarrow> (2026, 5, 2)
      | Months12 \<Rightarrow> (2025, 11, 2) | Year1 \<Rightarrow> (2025, 11, 2))"

definition ledger :: "transaction list \<Rightarrow> budget list \<Rightarrow> (query \<Rightarrow> bool) \<Rightarrow> store" where
  "ledger ts bs f =
     \<lparr> transactions = ts, budgets = bs, current_date = (2026, 11, 2), ago = ago_2026_11_02,
       extract_dow = gregorian_dow, fails = f \<rparr>"

definition expense :: "nat \<Rightarrow> string \<Rightarrow> real \<Rightarrow> sql_date \<Rightarrow> transaction" where
  "expense i c a d =
     \<lparr> t_id = i, t_user_id = ''user123'', t_amount = a, t_type = Expense, t_category = c,
       t_description = None, t_date = d \<rparr>"

definition income :: "nat \<Rightarrow> string \<Rightarrow> real \<Rightarrow> sql_date \<Rightarrow> transaction" where
  "income i c a d =
     \<lparr> t_id = i, t_user_id = ''user123'', t_amount = a, t_type = Income, t_category = c,
       t_description = None, t_date = d \<rparr>"

text \<open>A user without any transaction or budget, all queries answered.\<close>

definition empty_ledger :: store where
  "empty_ledger = ledger [] [] (\<lambda>q. False)"

text \<open>The same user while the store rejects the anomaly query only.\<close>

definition empty_ledger_anomalies_down :: store where
  "empty_ledger_anomalies_down = ledger [] [] (\<lambda>q. q = QAnomalies)"

text \<open>Dining expenses of 100 in August, 110 in September and 120 in October 2026.\<close>

definition dining_ledger :: store where
  "dining_ledger =
     ledger [expense 1 ''Dining'' 100 (2026, 8, 15),
             expense 2 ''Dining'' 110 (2026, 9, 15),
             expense 3 ''Dining'' 120 (2026, 10, 15)] [] (\<lambda>q. False)"

text \<open>Nine Shopping expenses in October 2026, eight of 10 and one of 19: mean 11, sample
  standard deviation 3.\<close>

definition shopping_ledger :: store where
  "shopping_ledger =
     ledger [expense 1 ''Shopping'' 10 (2026, 10, 5),
             expense 2 ''Shopping'' 10 (2026, 10, 6),
             expense 3 ''Shopping'' 10 (2026, 10, 7),
             expense 4 ''Shopping'' 10 (2026, 10, 8),
             expense 5 ''Shopping'' 10 (2026, 10, 9),
             expense 6 ''Shopping'' 10 (2026, 10, 12),
             expense 7 ''Shopping'' 10 (2026, 10, 13),
             expense 8 ''Shopping'' 10 (2026, 10, 14),
             expense 9 ''Shopping'' 19 (2026, 10, 15)] [] (\<lambda>q. False)"

text \<open>
  A salary of 5000 and expenses of 3000 in six expense categories in October 2026, and two
  budgets, neither exceeded in November.
\<close>

definition salary_ledger :: store where
  "salary_ledger =
     ledger [income 1 ''Salary'' 5000 (2026, 10, 1),
             expense 2 ''Housing'' 500 (2026, 10, 2),
             expense 3 ''Groceries'' 500 (2026, 10, 5),
             expense 4 ''Utilities'' 500 (2026, 10, 6),
             expense 5 ''Transportation'' 500 (2026, 10, 7),
             expense 6 ''Entertainment'' 500 (2026, 10, 8),
             expense 7 ''Shopping'' 500 (2026, 10, 9)]
            [\<lparr> b_user_id = ''user123'', b_category = ''Housing'', b_amount = 1000,
               b_month_year = ''2026-11'' \<rparr>,
             \<lparr> b_user_id = ''user123'', b_category = ''Groceries'', b_amount = 600,
               b_month_year = ''2026-11'' \<rparr>]
            (\<lambda>q. False)"


text \<open>The runtime of the examples: every call of \<^verbatim>\<open>Math.random()\<close> gives one half.\<close>

definition steady_runtime :: runtime where
  "steady_runtime =
     \<lparr> random = (\<lambda>k. 1 / 2),
       month_ahead = (\<lambda>i. if i = 1 then ''2026-12'' else if i = 2 then ''2027-01'' else ''2027-02''),
       now_iso = ''2026-11-02T10:30:00.000Z'' \<rparr>"





section \<open>Evaluation on the concrete ledgers\<close>

lemmas ledger_defs = ledger_def expense_def income_def ago_2026_11_02_def gregorian_dow_def

lemmas char_defs = char_of_def bit_0

lemmas health_defs = getFinancialHealthScore_def sql_exec_def health_metrics_query_def
  recent_data_def budget_groups_def under_budget_def budget_join_def sql_sum_def coalesce0_def
  health_of_row_def savings_factor_def Math_round_def getHealthGrade_def
  generateHealthRecommendations_def improve_def emergency_savings_def toLowerCase_def

lemma salary_metrics:
  "health_metrics_query salary_ledger ''user123'' =
     \<lparr> total_income = Some 5000, total_expenses = Some 3000, category_diversity = 7,
       savings_percentage = 40, total_budgets = 2, successful_budgets = 2 \<rparr>"
  by (simp add: salary_ledger_def ledger_defs health_defs Let_def)

lemma salary_health:
  "getFinancialHealthScore salary_ledger ''user123'' =
     Some \<lparr> overall_score = 98, grade = ''A+'',
       factors =
         [\<lparr> factor = ''Excellent savings rate'', impact = 30, status = Positive \<rparr>,
          \<lparr> factor = ''Budget adherence'', impact = 25, status = Positive \<rparr>,
          \<lparr> factor = ''Expense categorization'', impact = 18, status = Positive \<rparr>,
          \<lparr> factor = ''Income stability'', impact = 25, status = Positive \<rparr>],
       recommendations = [],
       metrics = \<lparr> m_savings_rate = 40, m_budget_adherence = 100, m_category_diversity = 7,
                   m_monthly_income = 5000, m_monthly_expenses = 3000 \<rparr> \<rparr>"
  unfolding getFinancialHealthScore_def salary_metrics
  by (simp add: sql_exec_def salary_ledger_def ledger_def health_of_row_def savings_factor_def
      Math_round_def getHealthGrade_def generateHealthRecommendations_def coalesce0_def Let_def)





section \<open>Health Scorer: properties\<close>

lemma Math_round_nonneg: "0 \<le> x \<Longrightarrow> 0 \<le> Math_round x"
  unfolding Math_round_def by simp

lemma Math_round_le: "x \<le> real_of_int n \<Longrightarrow> Math_round x \<le> n"
  unfolding Math_round_def by linarith


text \<open>Two facts the query guarantees of its row: no more budgets are kept than exist, and
  without a positive income the savings percentage is the \<^verbatim>\<open>ELSE 0\<close>.\<close>

lemma successful_le_total:
  "successful_budgets (health_metrics_query st userId)
     \<le> total_budgets (health_metrics_query st userId)"
  by (simp add: health_metrics_query_def Let_def)



lemma savings_factor_cases:
  "(status (savings_factor r) = Negative \<and> impact (savings_factor r) = 0)
   \<or> (status (savings_factor r) \<noteq> Negative \<and> impact (savings_factor r) \<in> {10, 20, 30})"
  by (simp add: savings_factor_def)




text \<open>The parts of the score, as \<^const>\<open>health_of_row\<close> computes them.\<close>

lemma health_of_row_parts:
  fixes d :: health_row
  defines "ba \<equiv> (if total_budgets d > 0
             then (real (successful_budgets d) / real (total_budgets d)) * 100 else 0)"
  defines "bp \<equiv> Math_round ((ba / 100) * 25)"
  defines "dv \<equiv> min (category_diversity d) 8"
  defines "dp \<equiv> Math_round ((real dv / 8) * 20)"
  defines "hasIncome \<equiv> (case total_income d of Some i \<Rightarrow> i > 0 | None \<Rightarrow> False)"
  defines "f1 \<equiv> savings_factor (savings_percentage d)"
  defines "f2 \<equiv> \<lparr> factor = ''Budget adherence'', impact = bp,
                 status = (if ba \<ge> 75 then Positive else if ba \<ge> 50 then Neutral else Negative) \<rparr>"
  defines "f3 \<equiv> \<lparr> factor = ''Expense categorization'', impact = dp,
                 status = (if dv \<ge> 5 then Positive else Neutral) \<rparr>"
  defines "f4 \<equiv> \<lparr> factor = ''Income stability'', impact = (if hasIncome then 25 else 0),
                 status = (if hasIncome then Positive else Negative) \<rparr>"
  defines "hs \<equiv> impact f1 + bp + dp + (if hasIncome then 25 else 0)"
  shows "overall_score (health_of_row d) = min hs 100"
    and "grade (health_of_row d) = getHealthGrade hs"
    and "factors (health_of_row d) = [f1, f2, f3, f4]"
    and "recommendations (health_of_row d) = generateHealthRecommendations hs [f1, f2, f3, f4]"
  unfolding assms by (simp_all add: health_of_row_def Let_def)

lemma score_range:
  assumes "successful_budgets d \<le> total_budgets d"
  shows "0 \<le> overall_score (health_of_row d) \<and> overall_score (health_of_row d) \<le> 100
    \<and> grade (health_of_row d) = getHealthGrade (overall_score (health_of_row d))"
proof -
  let ?ba = "if total_budgets d > 0
             then (real (successful_budgets d) / real (total_budgets d)) * 100 else 0"
  let ?bp = "Math_round ((?ba / 100) * 25)"
  let ?dp = "Math_round ((real (min (category_diversity d) 8) / 8) * 20)"
  have ba: "0 \<le> ?ba \<and> ?ba \<le> 100"
    using assms by (auto simp: divide_le_eq)
  have b: "0 \<le> ?bp \<and> ?bp \<le> 25"
    using ba by (intro conjI Math_round_nonneg Math_round_le) auto
  have dv: "0 \<le> ?dp \<and> ?dp \<le> 20"
    by (intro conjI Math_round_nonneg Math_round_le) auto
  have s: "impact (savings_factor (savings_percentage d)) \<in> {0, 10, 20, 30}"
    using savings_factor_cases[of "savings_percentage d"] by auto
  show ?thesis
    unfolding health_of_row_parts using b dv s by auto
qed



lemma health_score_Some:
  "getFinancialHealthScore st userId = Some h
     \<Longrightarrow> h = health_of_row (health_metrics_query st userId)"
  by (auto simp: getFinancialHealthScore_def sql_exec_def split: if_splits)

text \<open>
  C3. Whatever the ledger, the \<^verbatim>\<open>overall_score\<close> that \<^verbatim>\<open>getFinancialHealthScore\<close> returns lies
  between 0 and 100, and the returned grade is the grade of that score. The grade boundaries
  include their lower bound: from 90 on the grade is A+, from 80 up to 90 it is A, from 70 B,
  from 60 C, from 50 D, and below 50 it is F.
\<close>

theorem health_score_range_and_grades:
  "(getFinancialHealthScore st userId = Some h \<longrightarrow>
      0 \<le> overall_score h \<and> overall_score h \<le> 100 \<and> grade h = getHealthGrade (overall_score h))
   \<and> (90 \<le> s \<longrightarrow> getHealthGrade s = ''A+'')
   \<and> (80 \<le> s \<and> s < 90 \<longrightarrow> getHealthGrade s = ''A'')
   \<and> (70 \<le> s \<and> s < 80 \<longrightarrow> getHealthGrade s = ''B'')
   \<and> (60 \<le> s \<and> s < 70 \<longrightarrow> getHealthGrade s = ''C'')
   \<and> (50 \<le> s \<and> s < 60 \<longrightarrow> getHealthGrade s = ''D'')
   \<and> (s < 50 \<longrightarrow> getHealthGrade s = ''F'')"
proof -
  have "0 \<le> overall_score h \<and> overall_score h \<le> 100 \<and> grade h = getHealthGrade (overall_score h)"
    if "getFinancialHealthScore st userId = Some h"
    using health_score_Some [OF that] score_range [OF successful_le_total [of st userId]]
    by simp
  then show ?thesis
    by (simp add: getHealthGrade_def)
qed

theorem health_score_range_and_grades_witness:
  "getFinancialHealthScore salary_ledger ''user123'' \<noteq> None
   \<and> 0 \<le> overall_score (the (getFinancialHealthScore salary_ledger ''user123''))
   \<and> overall_score (the (getFinancialHealthScore salary_ledger ''user123'')) \<le> 100
   \<and> grade (the (getFinancialHealthScore salary_ledger ''user123'')) = getHealthGrade 98
   \<and> getHealthGrade 90 = ''A+'' \<and> getHealthGrade 80 = ''A'' \<and> getHealthGrade 70 = ''B''
   \<and> getHealthGrade 60 = ''C'' \<and> getHealthGrade 50 = ''D'' \<and> getHealthGrade 49 = ''F''"
proof -
  let ?h = "the (getFinancialHealthScore salary_ledger ''user123'')"
  have e: "getFinancialHealthScore salary_ledger ''user123'' = Some ?h"
    by (simp add: salary_health)
  have s: "overall_score ?h = 98"
    by (simp add: salary_health)
  note t = health_score_range_and_grades [of salary_ledger "''user123''" ?h]
  show ?thesis
    using e s t [of 90] t [of 80] t [of 70] t [of 60] t [of 50] t [of 49] by auto
qed






section \<open>Trend Predictor: properties\<close>

lemma dining_ok: "fails dining_ledger q = False"
  by (simp add: dining_ledger_def ledger_def)

lemma dining_rows:
  "historical_query dining_ledger ''user123'' =
     [\<lparr> h_month = 202610, h_category = ''Dining'', monthly_spending = 120 \<rparr>,
      \<lparr> h_month = 202609, h_category = ''Dining'', monthly_spending = 110 \<rparr>,
      \<lparr> h_month = 202608, h_category = ''Dining'', monthly_spending = 100 \<rparr>]"
  by (simp add: historical_query_def dining_ledger_def ledger_defs Let_def)

lemma dining_grouped:
  "group_by_category [] (historical_query dining_ledger ''user123'') =
     Inr [(''Dining'', [120, 110, 100])]"
  unfolding dining_rows by (simp add: object_prototype_keys_def)

lemma trend_latest_first: "calculateTrend [120, 110, 100] = - 10"
  by (simp add: calculateTrend_def Let_def enumerate_eq_zip upt_rec)

lemma trend_chronological: "calculateTrend [100, 110, 120] = 10"
  by (simp add: calculateTrend_def Let_def enumerate_eq_zip upt_rec)

lemma variation_small: "sqrt (200 / 3) / 110 < 3 / 10"
proof -
  have "sqrt (200 / 3) < 9"
    by (rule real_less_lsqrt) simp_all
  then show ?thesis by simp
qed

lemma confidence_latest_first: "calculateConfidence [120, 110, 100] = ''high''"
  using variation_small by (simp add: calculateConfidence_def Let_def power2_eq_square)

lemma confidence_chronological: "calculateConfidence [100, 110, 120] = ''high''"
  using variation_small by (simp add: calculateConfidence_def Let_def power2_eq_square)

lemma predict_latest_first:
  "predict [120, 110, 100] =
     \<lparr> predicted_amount = 100, confidence = ''high'', trend = ''decreasing'' \<rparr>"
  by (simp add: predict_def trend_latest_first confidence_latest_first round2_def
      Math_round_def Let_def)

lemma predict_chronological:
  "predict [100, 110, 120] =
     \<lparr> predicted_amount = 120, confidence = ''high'', trend = ''increasing'' \<rparr>"
  by (simp add: predict_def trend_chronological confidence_chronological round2_def
      Math_round_def Let_def)

text \<open>
  C1. For the category Dining with monthly totals 100, 110, 120 in chronological order the
  claim expects a prediction of 120.00 with trend increasing and confidence high. That is
  what \<^const>\<open>predict\<close> gives on \<open>[100, 110, 120]\<close>; but the query orders the months
  \<^verbatim>\<open>DESC\<close>, so the function regresses over \<open>[120, 110, 100]\<close> and reports 100, decreasing,
  high.
\<close>

theorem trend_predictor_latest_month_first:
  "map monthly_spending (historical_query dining_ledger ''user123'') = [120, 110, 100]
   \<and> getPredictiveInsights dining_ledger ''user123'' =
       Some \<lparr> next_month_predictions =
                [(''Dining'', \<lparr> predicted_amount = 100, confidence = ''high'',
                               trend = ''decreasing'' \<rparr>)],
              total_predicted_spending = 100,
              pr_recommendations = [] \<rparr>
   \<and> predict [100, 110, 120] =
       \<lparr> predicted_amount = 120, confidence = ''high'', trend = ''increasing'' \<rparr>"
  by (simp add: getPredictiveInsights_def sql_exec_def dining_ok dining_rows
      object_prototype_keys_def predict_latest_first predict_chronological
      generatePredictionRecommendations_def)

section \<open>Anomaly Detector: properties\<close>

lemma sqrt_9: "sqrt 9 = 3"
  by (rule real_sqrt_unique) simp_all

lemma shopping_ok: "fails shopping_ledger q = False"
  by (simp add: shopping_ledger_def ledger_def)

lemma shopping_baseline:
  "baseline_amounts shopping_ledger ''user123'' ''Shopping'' = [10, 10, 10, 10, 10, 10, 10, 10, 19]"
  by (simp add: baseline_amounts_def shopping_ledger_def ledger_defs)

lemma shopping_stddev: "sql_stddev [10, 10, 10, 10, 10, 10, 10, 10, 19] = Some 3"
  by (simp add: sql_stddev_def Let_def sqrt_9)

lemma shopping_stats:
  "category_stats shopping_ledger ''user123'' =
     [\<lparr> cs_category = ''Shopping'', cs_avg_amount = 11, cs_std_amount = Some 3,
        cs_transaction_count = 9 \<rparr>]"
proof -
  have "remdups (map t_category
          (filter (\<lambda>t. t_user_id t = ''user123'' \<and> t_type t = Expense
                      \<and> date_ge (t_date t) (ago shopping_ledger Months6))
             (transactions shopping_ledger))) = [''Shopping'']"
    by (simp add: shopping_ledger_def ledger_defs)
  then show ?thesis
    by (simp add: category_stats_def shopping_baseline shopping_stddev Let_def)
qed

lemma shopping_flagged:
  "flagged shopping_ledger ''user123'' =
     [\<lparr> a_id = 9, a_date = (2026, 10, 15), a_category = ''Shopping'', a_amount = 19,
        a_description = None, avg_amount = 11, z_score = 8 / 3 \<rparr>]"
  by (simp add: flagged_def recent_transactions_def shopping_stats z_score_sql_def nullif0_def
      List.map_filter_def)
    (simp add: shopping_ledger_def ledger_defs)

lemma shopping_anomalies:
  "getAnomalyDetection shopping_ledger ''user123'' =
     Some \<lparr> unusual_transactions =
              [\<lparr> a_id = 9, a_date = (2026, 10, 15), a_category = ''Shopping'', a_amount = 19,
                 a_description = None, avg_amount = 11, z_score = 8 / 3,
                 severity = ''medium'', deviation_percentage = ''72.7'' \<rparr>],
            summary = \<lparr> total_anomalies = 1, high_severity_count = 0 \<rparr> \<rparr>"
  by (simp add: getAnomalyDetection_def sql_exec_def shopping_ok anomaly_query_def
      shopping_flagged annotate_def toFixed_def char_defs Let_def)







lemma anomaly_query_length:
  "length (anomaly_query st userId) = min 10 (length (flagged st userId))"
  by (simp add: anomaly_query_def min.commute)

lemma annotate_keeps:
  "a_id (annotate a) = a_id a" "a_category (annotate a) = a_category a"
  "a_amount (annotate a) = a_amount a" "avg_amount (annotate a) = avg_amount a"
  "z_score (annotate a) = z_score a"
  by (simp_all add: annotate_def)

lemma anomaly_Some:
  "getAnomalyDetection st userId = Some r \<Longrightarrow>
     unusual_transactions r = map annotate (anomaly_query st userId)
     \<and> total_anomalies (summary r) = length (anomaly_query st userId)
     \<and> high_severity_count (summary r)
         = length (filter (\<lambda>a. z_score a > 3) (anomaly_query st userId))"
  by (auto simp: getAnomalyDetection_def sql_exec_def split: if_splits)



text \<open>
  C10. Whatever the ledger, in the result of \<^verbatim>\<open>getAnomalyDetection\<close> the count
  \<^verbatim>\<open>total_anomalies\<close> is the number of entries of \<^verbatim>\<open>unusual_transactions\<close>, which is the
  number of flagged transactions cut at 10, and \<^verbatim>\<open>high_severity_count\<close> is the number of
  those entries with a z-score above 3, so it is at most \<^verbatim>\<open>total_anomalies\<close>.
\<close>

theorem anomaly_summary_counts:
  assumes "getAnomalyDetection st userId = Some r"
  shows "total_anomalies (summary r) = length (unusual_transactions r)
    \<and> total_anomalies (summary r) = min 10 (length (flagged st userId))
    \<and> total_anomalies (summary r) \<le> 10
    \<and> high_severity_count (summary r)
        = length (filter (\<lambda>a. z_score a > 3) (unusual_transactions r))
    \<and> high_severity_count (summary r) \<le> total_anomalies (summary r)"
proof -
  note r = anomaly_Some [OF assms]
  have "filter (\<lambda>a. z_score a > 3) (map annotate (anomaly_query st userId))
      = map annotate (filter (\<lambda>a. z_score a > 3) (anomaly_query st userId))"
    by (simp add: filter_map comp_def annotate_keeps)
  moreover have "length (filter (\<lambda>a. z_score a > 3) (anomaly_query st userId))
      \<le> length (anomaly_query st userId)"
    by (rule length_filter_le)
  ultimately show ?thesis
    using r by (simp add: anomaly_query_length)
qed

theorem anomaly_summary_counts_witness:
  "getAnomalyDetection shopping_ledger ''user123'' \<noteq> None
   \<and> total_anomalies (summary (the (getAnomalyDetection shopping_ledger ''user123''))) = 1
   \<and> length (unusual_transactions (the (getAnomalyDetection shopping_ledger ''user123''))) = 1
   \<and> length (flagged shopping_ledger ''user123'') = 1
   \<and> high_severity_count (summary (the (getAnomalyDetection shopping_ledger ''user123''))) = 0"
proof -
  let ?r = "the (getAnomalyDetection shopping_ledger ''user123'')"
  have e: "getAnomalyDetection shopping_ledger ''user123'' = Some ?r"
    by (simp add: shopping_anomalies)
  show ?thesis
    using anomaly_summary_counts [OF e] e by (auto simp: shopping_anomalies shopping_flagged)
qed




section \<open>Cash-Flow Projector: properties\<close>










section \<open>Pattern Analyzer and Orchestrator: properties\<close>

lemma sort_key_Nil: "sort_key f xs = [] \<longleftrightarrow> xs = []"
  by (metis length_sort length_0_conv)

lemma weekly_patterns_empty:
  "weekly_patterns_query st userId per = [] \<longleftrightarrow> spending_analysis st userId per = []"
  by (simp add: weekly_patterns_query_def Let_def sort_key_Nil)

text \<open>With both queries answered, \<^verbatim>\<open>getSpendingPatterns\<close> is \<^verbatim>\<open>null\<close> exactly for a user
  without expenses in the window.\<close>

lemma spending_patterns_populated:
  assumes "\<not> fails st QWeeklyPatterns" and "\<not> fails st QMonthlyTrends"
  shows "getSpendingPatterns st userId per \<noteq> None \<longleftrightarrow> spending_analysis st userId per \<noteq> []"
  using assms weekly_patterns_empty [of st userId per]
  by (auto simp: getSpendingPatterns_def sql_exec_def generatePatternInsights_def Let_def
      split: list.splits)

lemma group_by_category_Inr:
  "(\<exists>r. group_by_category acc rows = Inr r)
     \<longleftrightarrow> (\<forall>row \<in> set rows. h_category row \<notin> set object_prototype_keys)"
  by (induction rows arbitrary: acc) auto

lemma predictions_populated:
  assumes "\<not> fails st QHistorical"
  shows "getPredictiveInsights st userId \<noteq> None
     \<longleftrightarrow> (\<forall>row \<in> set (historical_query st userId). h_category row \<notin> set object_prototype_keys)"
  using assms group_by_category_Inr [of "[]" "historical_query st userId"]
  by (auto simp: getPredictiveInsights_def sql_exec_def Let_def split: sum.splits)

text \<open>
  The isolation of the sections: when only the anomaly query is rejected the response is
  still the report, the anomalies are \<^verbatim>\<open>null\<close>, the health score and the cash-flow
  projection are there, and the other two sections are there or not as they would be with
  the anomaly query answered.
\<close>

lemma anomaly_failure_isolated:
  assumes "fails st QAnomalies" and "\<forall>q. q \<noteq> QAnomalies \<longrightarrow> \<not> fails st q"
  shows "\<exists>rep. getAdvancedAnalytics st rt userId per = Json rep
    \<and> an_anomalies (analytics rep) = None
    \<and> an_health_score (analytics rep) \<noteq> None
    \<and> an_cash_flow_projection (analytics rep) \<noteq> None
    \<and> (an_predictions (analytics rep) \<noteq> None \<longleftrightarrow>
         (\<forall>row \<in> set (historical_query st userId). h_category row \<notin> set object_prototype_keys))
    \<and> (an_spending_patterns (analytics rep) \<noteq> None \<longleftrightarrow>
         spending_analysis st userId (period rep) \<noteq> [])"
proof -
  have ok: "\<not> fails st QWeeklyPatterns" "\<not> fails st QMonthlyTrends" "\<not> fails st QHistorical"
    "\<not> fails st QHealthMetrics" "\<not> fails st QCashFlow"
    using assms(2) by simp_all
  have "getAnomalyDetection st userId = None"
    using assms(1) by (simp add: getAnomalyDetection_def sql_exec_def)
  moreover have "getFinancialHealthScore st userId \<noteq> None"
    using ok by (simp add: getFinancialHealthScore_def sql_exec_def)
  moreover have "getCashFlowProjection st rt userId \<noteq> None"
    using ok by (simp add: getCashFlowProjection_def sql_exec_def)
  ultimately show ?thesis
    using predictions_populated [OF ok(3), of userId]
      spending_patterns_populated [OF ok(1) ok(2), of userId]
    by (simp add: getAdvancedAnalytics_def Let_def)
qed

text \<open>
  C7. For a user without expenses in the window the claim expects empty aggregates. Both
  queries do return no rows, but \<^verbatim>\<open>generatePatternInsights\<close> then reduces the empty array
  without an initial value, the \<^verbatim>\<open>TypeError\<close> is caught, and \<^verbatim>\<open>getSpendingPatterns\<close> returns
  \<^verbatim>\<open>null\<close>.
\<close>

theorem spending_patterns_no_expenses:
  "weekly_patterns_query empty_ledger ''user123'' ''6months'' = []
   \<and> monthly_trends_query empty_ledger ''user123'' ''6months'' = []
   \<and> generatePatternInsights [] [] = Inl TypeError
   \<and> getSpendingPatterns empty_ledger ''user123'' ''6months'' = None"
  by (simp add: weekly_patterns_query_def monthly_trends_query_def getSpendingPatterns_def
      sql_exec_def generatePatternInsights_def spending_analysis_def empty_ledger_def ledger_def)

text \<open>
  C4. With the anomaly query rejected and every other query answered, the claim expects
  the four other sections populated. For a user without expenses the response is the report
  with \<^verbatim>\<open>anomalies: null\<close>, but \<^verbatim>\<open>spending_patterns\<close> is \<^verbatim>\<open>null\<close> as well, for the reason
  given under C7.
\<close>

theorem analytics_anomaly_query_down:
  "getAdvancedAnalytics empty_ledger_anomalies_down steady_runtime ''user123'' None =
     Json \<lparr> user_id = ''user123'', generated_at = ''2026-11-02T10:30:00.000Z'',
            period = ''6months'',
            analytics =
              \<lparr> an_spending_patterns = None,
                an_predictions =
                  Some \<lparr> next_month_predictions = [], total_predicted_spending = 0,
                         pr_recommendations = [] \<rparr>,
                an_health_score =
                  Some \<lparr> overall_score = 10, grade = ''F'',
                    factors =
                      [\<lparr> factor = ''Basic savings rate'', impact = 10, status = Neutral \<rparr>,
                       \<lparr> factor = ''Budget adherence'', impact = 0, status = Negative \<rparr>,
                       \<lparr> factor = ''Expense categorization'', impact = 0, status = Neutral \<rparr>,
                       \<lparr> factor = ''Income stability'', impact = 0, status = Negative \<rparr>],
                    recommendations =
                      [emergency_savings,
                       \<lparr> priority = ''medium'', message = ''Improve your budget adherence'',
                         action = ''This will significantly boost your financial health score'' \<rparr>],
                    metrics = \<lparr> m_savings_rate = 0, m_budget_adherence = 0,
                                m_category_diversity = 0, m_monthly_income = 0,
                                m_monthly_expenses = 0 \<rparr> \<rparr>,
                an_anomalies = None,
                an_cash_flow_projection =
                  Some \<lparr> projection = [], cf_confidence = ''low'',
                         cf_message = Some ''Insufficient data for projection'',
                         trends = None \<rparr> \<rparr> \<rparr>"
  by (simp add: getAdvancedAnalytics_def steady_runtime_def empty_ledger_anomalies_down_def
      ledger_defs getSpendingPatterns_def weekly_patterns_query_def monthly_trends_query_def
      spending_analysis_def generatePatternInsights_def
      getPredictiveInsights_def historical_query_def generatePredictionRecommendations_def
      getFinancialHealthScore_def sql_exec_def
      health_metrics_query_def recent_data_def budget_groups_def sql_sum_def coalesce0_def
      health_of_row_def savings_factor_def Math_round_def getHealthGrade_def
      generateHealthRecommendations_def improve_def toLowerCase_def char_defs
      getAnomalyDetection_def getCashFlowProjection_def cash_flow_query_def
      project_cash_flow_def Let_def)

end
